theory Spec2Isabelle
  imports
    Complex_Main
    "HOL-Library.Word"
    "HOL-Library.AList"
    "HOL-Library.Char_ord"
    "HOL-Library.List_Lexorder"
    "HOL-Library.Multiset"
begin

section \<open>The event submission pipeline of the sentry client (client.go)\<close>

text \<open>
  A shallow embedding of \<^verbatim>\<open>src/client.go\<close>. Every Go function that the properties
  below talk about is a HOL function of the same name. What the Go code reads from its
  surroundings (the random draw, the clock, the host name, the identifier generator, the
  process environment, the order in which a \<^verbatim>\<open>range\<close> over a map yields keys) is an
  explicit argument; what it does to its surroundings (calls of the scope, of the
  pre-send callback, of the transport, of the debug logger, of an integration's setup
  hook, of the hub) is returned as a list of calls, in the order the code makes them.

  A pointer, interface, slice, map or function value that may be \<^verbatim>\<open>nil\<close> is an
  option, \<open>None\<close> being \<^verbatim>\<open>nil\<close>. Where the code uses such a value without a
  check (\<^verbatim>\<open>event\<close>, \<^verbatim>\<open>scope\<close>, \<^verbatim>\<open>client.Transport\<close>, \<^verbatim>\<open>exception\<close>) and it
  is \<^verbatim>\<open>nil\<close>, the Go function panics; the model's outcome is then \<open>Panics\<close>. The
  receiver \<^verbatim>\<open>client\<close> itself is taken to be non-nil.
\<close>

subsection \<open>Data\<close>

text \<open>
  \<^verbatim>\<open>float32\<close>. The code only compares such values (\<^verbatim>\<open>!=\<close>, \<^verbatim>\<open>>\<close>) and never
  computes with them, so a finite value is represented by the real number it denotes
  (both zeros are \<open>Finite 0\<close>, which is how the comparisons see them), and the
  comparisons follow IEEE 754: every ordered comparison with a NaN is false,
  \<^verbatim>\<open>!=\<close> with a NaN is true.
\<close>

datatype float32 = Finite real | PosInf | NegInf | NaN

fun f32_neq :: "float32 \<Rightarrow> float32 \<Rightarrow> bool" where
  "f32_neq NaN _ = True"
| "f32_neq _ NaN = True"
| "f32_neq (Finite a) (Finite b) = (a \<noteq> b)"
| "f32_neq PosInf PosInf = False"
| "f32_neq NegInf NegInf = False"
| "f32_neq _ _ = True"

fun f32_gt :: "float32 \<Rightarrow> float32 \<Rightarrow> bool" where
  "f32_gt NaN _ = False"
| "f32_gt _ NaN = False"
| "f32_gt (Finite a) (Finite b) = (b < a)"
| "f32_gt PosInf PosInf = False"
| "f32_gt PosInf _ = True"
| "f32_gt NegInf _ = False"
| "f32_gt (Finite a) NegInf = True"
| "f32_gt (Finite a) PosInf = False"

type_synonym int64 = "64 word"

text \<open>\<^verbatim>\<open>context.Context\<close>, \<^verbatim>\<open>http.Response\<close> and \<^verbatim>\<open>*Dsn\<close> are opaque here.\<close>

datatype Context = Context nat
datatype Response = Response nat
datatype Dsn = Dsn string
datatype Hub = Hub nat

text \<open>A value of interface type \<^verbatim>\<open>error\<close>, with the text its \<^verbatim>\<open>Error()\<close> returns.\<close>

datatype GoError = GoError string

fun Error :: "GoError \<Rightarrow> string" where
  "Error (GoError s) = s"

text \<open>What a Go call comes to: it returns, or it panics on a nil dereference.\<close>

datatype 'a outcome = Returns 'a | Panics

text \<open>
  The declarations of \<^verbatim>\<open>Event\<close>, \<^verbatim>\<open>SdkInfo\<close>, \<^verbatim>\<open>SdkPackage\<close> and
  \<^verbatim>\<open>EventHint\<close> are not in client.go; the records have the fields that client.go reads
  or writes, with the types its assignments force.
\<close>

record SdkPackage =
  pkg_Name :: string
  pkg_Version :: string

record SdkInfo =
  sdk_Name :: string
  sdk_Version :: string
  sdk_Integrations :: "string list"
  sdk_Packages :: "SdkPackage list"

record Event =
  EventID :: string
  Timestamp :: int64
  Level :: string
  Message :: string
  ServerName :: string
  Platform :: string
  Transaction :: string
  Sdk :: SdkInfo

record EventHint =
  hint_Context :: "Context option"

text \<open>The composite literal \<^verbatim>\<open>&EventHint{}\<close>.\<close>

definition EventHint_zero :: EventHint where
  "EventHint_zero = \<lparr>hint_Context = None\<rparr>"

text \<open>
  \<^verbatim>\<open>type Integration interface { Name() string; SetupOnce() }\<close>. An integration is
  its name together with an identity that tells two integrations of one name apart.
\<close>

record Integration =
  Name :: string
  ident :: nat

text \<open>
  The \<^verbatim>\<open>Transport\<close> interface: \<^verbatim>\<open>SendEvent\<close> returns a response and an error
  (\<open>None\<close> is \<^verbatim>\<open>nil\<close>); \<^verbatim>\<open>Configure\<close> returns nothing and shows up in the calls only.
\<close>

record Transport =
  transport_ident :: nat
  SendEvent :: "Event \<Rightarrow> Response option \<times> string option"

text \<open>\<^verbatim>\<open>EventModifier.ApplyToEvent(event, hint)\<close>: \<open>None\<close> is the veto.\<close>

type_synonym EventModifier = "Event \<Rightarrow> EventHint option \<Rightarrow> Event option"

text \<open>
  \<^verbatim>\<open>ClientOptions\<close>. The field \<^verbatim>\<open>BeforeBreadcrumb\<close>, which client.go never reads
  and whose types are declared elsewhere, is left out; of the writer behind
  \<^verbatim>\<open>DebugWriter\<close> only an identity is kept. The fields \<^verbatim>\<open>Dsn\<close>, \<^verbatim>\<open>Transport\<close>
  and \<^verbatim>\<open>ServerName\<close> carry the prefix \<open>opt\<close>, their names being taken by a type and
  by fields of other records. A \<^verbatim>\<open>nil\<close> function, slice or interface is \<open>None\<close>.
\<close>

record ClientOptions =
  opt_Dsn :: string
  Debug :: bool
  SampleRate :: float32
  BeforeSend :: "(Event \<Rightarrow> EventHint option \<Rightarrow> Event option) option"
  Integrations :: "Integration list option"
  opt_Transport :: "Transport option"
  opt_ServerName :: string
  Release :: string
  Dist :: string
  Environment :: string
  MaxBreadcrumbs :: int
  DebugWriter :: "nat option"

text \<open>
  \<^verbatim>\<open>Client\<close>. The Go map \<^verbatim>\<open>integrations\<close> is an association list with one pair
  per key (\<open>None\<close> is the nil map); \<^verbatim>\<open>m[k] = v\<close> is \<^const>\<open>AList.update\<close>.
\<close>

record Client =
  options :: ClientOptions
  dsn :: "Dsn option"
  integrations :: "(string \<times> Integration) list option"
  Transport :: "Transport option"

text \<open>
  What one run of the pipeline reads from outside client.go: the value that
  \<^verbatim>\<open>rand.New(...).Float32()\<close> returns, what \<^verbatim>\<open>uuid()\<close> returns, the value of
  \<^verbatim>\<open>time.Now().Unix()\<close>, the pair that \<^verbatim>\<open>os.Hostname()\<close> returns (\<open>None\<close> for a nil
  error), the order in which a \<^verbatim>\<open>range\<close> over a map yields the keys it is given, and
  the package constant \<^verbatim>\<open>VERSION\<close>.
\<close>

record env =
  rand_Float32 :: float32
  uuid :: string
  now_Unix :: int64
  os_Hostname :: "string \<times> string option"
  range_order :: "string list \<Rightarrow> string list"
  VERSION :: string

text \<open>The calls the code makes, with the arguments passed and, for the two filters, the result.\<close>

datatype call =
    Float32_call float32
  | ApplyToEvent_call Event "EventHint option" "Event option"
  | BeforeSend_call Event "EventHint option" "Event option"
  | SendEvent_call Event
  | debugger_SetOutput "nat option"
  | debugger_Println string
  | debugger_Printf string
  | Configure_call nat
  | SetupOnce_call Integration
  | CaptureException_call GoError
  | CaptureMessage_call string
  | Hub_CaptureException_call Hub GoError EventHint
  | Hub_CaptureMessage_call Hub string EventHint

text \<open>
  Modelled from the spec: the constant \<^verbatim>\<open>LevelInfo\<close> is declared outside client.go;
  the spec gives its value ("set severity level to \<^verbatim>\<open>info\<close>").
\<close>

definition LevelInfo :: string where
  "LevelInfo = ''info''"

text \<open>
  Modelled from the spec: the function \<^verbatim>\<open>uuid()\<close> is declared outside client.go. The
  spec has it generate an identifier, and an identifier is not the empty string, which
  in an event stands for "no identifier yet".
\<close>

definition uuid_generates_identifier :: "env \<Rightarrow> bool" where
  "uuid_generates_identifier e \<longleftrightarrow> uuid e \<noteq> []"

subsection \<open>Integration listing\<close>

text \<open>
  \<^verbatim>\<open>sort.Strings\<close> sorts in increasing order of Go's \<^verbatim>\<open><\<close> on strings, the
  lexicographic order on bytes; that is the order of \<^typ>\<open>char list\<close> here.
\<close>

definition sort_Strings :: "string list \<Rightarrow> string list" where
  "sort_Strings xs = sort xs"

text \<open>
  \<^verbatim>\<open>for key := range client.integrations\<close> visits every key once, in an order the Go
  runtime chooses: \<open>range_order env\<close> applied to the keys. A nil map has no keys.
\<close>

definition map_keys :: "(string \<times> Integration) list option \<Rightarrow> string list" where
  "map_keys m = (case m of None \<Rightarrow> [] | Some al \<Rightarrow> map fst al)"

definition listIntegrations :: "env \<Rightarrow> Client \<Rightarrow> string list" where
  "listIntegrations e client =
     sort_Strings (foldl (\<lambda>integrations key. integrations @ [key]) []
                     (range_order e (map_keys (integrations client))))"

subsection \<open>Preparation\<close>

definition Options :: "Client \<Rightarrow> ClientOptions" where
  "Options client = options client"

text \<open>
  The assignments of \<^verbatim>\<open>prepareEvent\<close> up to, and without, its last line: the event as
  it is handed to the scope.
\<close>

definition prepareEvent_defaults :: "env \<Rightarrow> Client \<Rightarrow> Event \<Rightarrow> Event" where
  "prepareEvent_defaults e client event0 =
     (let event1 = (if EventID event0 = [] then event0\<lparr>EventID := uuid e\<rparr> else event0);
          event2 = (if Timestamp event1 = 0 then event1\<lparr>Timestamp := now_Unix e\<rparr> else event1);
          event3 = (if Level event2 = [] then event2\<lparr>Level := LevelInfo\<rparr> else event2);
          event4 = (if ServerName event3 = []
                    then (case os_Hostname e of
                            (hostname, None) \<Rightarrow> event3\<lparr>ServerName := hostname\<rparr>
                          | (hostname, Some err) \<Rightarrow> event3)
                    else event3)
      in event4\<lparr>Sdk := \<lparr>sdk_Name = ''sentry.go'',
                         sdk_Version = VERSION e,
                         sdk_Integrations = listIntegrations e client,
                         sdk_Packages = [\<lparr>pkg_Name = ''sentry-go'', pkg_Version = VERSION e\<rparr>]\<rparr>,
                 Platform := ''go'',
                 Transaction := ''Don't sneak into my computer please''\<rparr>)"

text \<open>
  \<^verbatim>\<open>prepareEvent\<close>: the defaults, then \<^verbatim>\<open>return scope.ApplyToEvent(event, hint)\<close>.
  Reading \<^verbatim>\<open>event.EventID\<close> of a nil event panics, and so does the call on a nil scope.
\<close>

definition prepareEvent ::
  "env \<Rightarrow> Client \<Rightarrow> Event option \<Rightarrow> EventHint option \<Rightarrow> EventModifier option
     \<Rightarrow> Event option outcome \<times> call list" where
  "prepareEvent e client event hint scope =
     (case event of
        None \<Rightarrow> (Panics, [])
      | Some event0 \<Rightarrow>
          (let event' = prepareEvent_defaults e client event0
           in case scope of
                None \<Rightarrow> (Panics, [])
              | Some ApplyToEvent \<Rightarrow>
                  (let r = ApplyToEvent event' hint
                   in (Returns r, [ApplyToEvent_call event' hint r]))))"

subsection \<open>The pipeline\<close>

text \<open>
  \<^verbatim>\<open>processEvent\<close> gives the pair (response, error) that the Go function returns, and
  the calls made. The random draw is made only when the rate is not zero.
\<close>

definition processEvent ::
  "env \<Rightarrow> Client \<Rightarrow> Event option \<Rightarrow> EventHint option \<Rightarrow> EventModifier option
     \<Rightarrow> (Response option \<times> string option) outcome \<times> call list" where
  "processEvent e client event hint scope =
     (let opts = Options client;
          drawn = (if f32_neq (SampleRate opts) (Finite 0)
                   then [Float32_call (rand_Float32 e)] else [])
      in if f32_neq (SampleRate opts) (Finite 0) \<and> f32_gt (rand_Float32 e) (SampleRate opts)
         then (Returns (None, Some ''event dropped due to SampleRate hit''), drawn)
         else
           (case prepareEvent e client event hint scope of
              (Panics, prepared) \<Rightarrow> (Panics, drawn @ prepared)
            | (Returns None, prepared) \<Rightarrow>
                (Returns (None, Some ''event dropped by one of the EventProcessors''),
                 drawn @ prepared)
            | (Returns (Some event1), prepared) \<Rightarrow>
                (let (filtered, event2) =
                       (case BeforeSend opts of
                          None \<Rightarrow> ([], Some event1)
                        | Some beforeSend \<Rightarrow>
                            (let h = (case hint of None \<Rightarrow> Some EventHint_zero | Some x \<Rightarrow> Some x);
                                 r = beforeSend event1 h
                             in ([BeforeSend_call event1 h r], r)))
                 in case event2 of
                      None \<Rightarrow>
                        (Returns (None, Some ''event dropped due to BeforeSend callback''),
                         drawn @ prepared @ filtered)
                    | Some event3 \<Rightarrow>
                        (case Transport client of
                           None \<Rightarrow> (Panics, drawn @ prepared @ filtered)
                         | Some transport \<Rightarrow>
                             (Returns (SendEvent transport event3),
                              drawn @ prepared @ filtered @ [SendEvent_call event3])))))"

subsection \<open>Capture entry points\<close>

text \<open>The zero value of \<^verbatim>\<open>Event\<close>, and the literal \<^verbatim>\<open>&Event{Message: message}\<close>.\<close>

definition Event_zero :: Event where
  "Event_zero =
     \<lparr>EventID = [], Timestamp = 0, Level = [], Message = [], ServerName = [],
      Platform = [], Transaction = [],
      Sdk = \<lparr>sdk_Name = [], sdk_Version = [], sdk_Integrations = [], sdk_Packages = []\<rparr>\<rparr>"

definition eventFromMessage :: "string \<Rightarrow> Event" where
  "eventFromMessage message = Event_zero\<lparr>Message := message\<rparr>"

definition eventFromException :: "GoError option \<Rightarrow> Event outcome" where
  "eventFromException exception =
     (case exception of
        None \<Rightarrow> Panics
      | Some err \<Rightarrow> Returns (Event_zero\<lparr>Message := Error err\<rparr>))"

text \<open>
  \<^verbatim>\<open>CaptureEvent\<close> returns nothing: an error of \<^verbatim>\<open>processEvent\<close> goes to the debug
  logger and nowhere else.
\<close>

definition CaptureEvent ::
  "env \<Rightarrow> Client \<Rightarrow> Event option \<Rightarrow> EventHint option \<Rightarrow> EventModifier option
     \<Rightarrow> unit outcome \<times> call list" where
  "CaptureEvent e client event hint scope =
     (case processEvent e client event hint scope of
        (Panics, calls) \<Rightarrow> (Panics, calls)
      | (Returns (resp, None), calls) \<Rightarrow> (Returns (), calls)
      | (Returns (resp, Some err), calls) \<Rightarrow> (Returns (), calls @ [debugger_Println err]))"

definition CaptureMessage ::
  "env \<Rightarrow> Client \<Rightarrow> string \<Rightarrow> EventHint option \<Rightarrow> EventModifier option
     \<Rightarrow> unit outcome \<times> call list" where
  "CaptureMessage e client message hint scope =
     CaptureEvent e client (Some (eventFromMessage message)) hint scope"

definition CaptureException ::
  "env \<Rightarrow> Client \<Rightarrow> GoError option \<Rightarrow> EventHint option \<Rightarrow> EventModifier option
     \<Rightarrow> unit outcome \<times> call list" where
  "CaptureException e client exception hint scope =
     (case eventFromException exception of
        Panics \<Rightarrow> (Panics, [])
      | Returns event \<Rightarrow> CaptureEvent e client (Some event) hint scope)"

subsection \<open>Recovery helpers\<close>

text \<open>
  A non-nil \<^verbatim>\<open>interface{}\<close> value, by its dynamic type. The assertion
  \<^verbatim>\<open>recoveredErr.(error)\<close> succeeds on the first constructor only and
  \<^verbatim>\<open>recoveredErr.(string)\<close> on the second only: the type \<^verbatim>\<open>string\<close> has no methods,
  so no value passes both.
\<close>

datatype recovered = Error_value GoError | String_value string | Other_value nat

text \<open>
  The hub functions are declared outside client.go and are arguments here. The package
  functions \<^verbatim>\<open>CaptureException(err)\<close> and \<^verbatim>\<open>CaptureMessage(err)\<close> that
  \<^verbatim>\<open>Recover\<close> calls are calls in the list, as are the two methods of a hub.
\<close>

record hubs =
  HasHubOnContext :: "Context option \<Rightarrow> bool"
  GetHubFromContext :: "Context option \<Rightarrow> Hub"
  CurrentHub :: Hub

text \<open>
  \<^verbatim>\<open>Recover\<close>. The first argument is what the builtin \<^verbatim>\<open>recover()\<close> would return;
  the parameter \<^verbatim>\<open>scope\<close> of the Go function is not used by it and is left out.
\<close>

definition Recover :: "recovered option \<Rightarrow> recovered option \<Rightarrow> call list" where
  "Recover recover_builtin recoveredErr0 =
     (let recoveredErr = (if recoveredErr0 = None then recover_builtin else recoveredErr0)
      in if recoveredErr \<noteq> None
         then (case recoveredErr of
                 Some (Error_value err) \<Rightarrow> [CaptureException_call err]
               | _ \<Rightarrow> [])
              @ (case recoveredErr of
                   Some (String_value err) \<Rightarrow> [CaptureMessage_call err]
                 | _ \<Rightarrow> [])
         else [])"

definition RecoverWithContext ::
  "hubs \<Rightarrow> recovered option \<Rightarrow> Context option \<Rightarrow> recovered option \<Rightarrow> call list" where
  "RecoverWithContext hs recover_builtin ctx recoveredErr0 =
     (let recoveredErr = (if recoveredErr0 = None then recover_builtin else recoveredErr0)
      in if recoveredErr \<noteq> None
         then (let currentHub = (if HasHubOnContext hs ctx then GetHubFromContext hs ctx
                                 else CurrentHub hs)
               in (case recoveredErr of
                     Some (Error_value err) \<Rightarrow>
                       [Hub_CaptureException_call currentHub err \<lparr>hint_Context = ctx\<rparr>]
                   | _ \<Rightarrow> [])
                  @ (case recoveredErr of
                       Some (String_value err) \<Rightarrow>
                         [Hub_CaptureMessage_call currentHub err \<lparr>hint_Context = ctx\<rparr>]
                     | _ \<Rightarrow> []))
         else [])"

subsection \<open>Client construction\<close>

text \<open>
  What \<^verbatim>\<open>NewClient\<close> reads from outside client.go: the process environment, the
  parser \<^verbatim>\<open>NewDsn\<close> (its pair of results as Go returns them, \<open>None\<close> for \<^verbatim>\<open>nil\<close>),
  the transport that \<^verbatim>\<open>new(HTTPTransport)\<close> makes, and the writer \<^verbatim>\<open>os.Stdout\<close>.
\<close>

record sys =
  Getenv :: "string \<Rightarrow> string"
  NewDsn :: "string \<Rightarrow> Dsn option \<times> string option"
  HTTPTransport :: Transport
  os_Stdout :: nat

text \<open>
  Modelled from the spec: \<^verbatim>\<open>NewDsn\<close> is not in client.go. Of its behaviour the spec
  says that an empty or absent descriptor is not an error and leads to the notice, which
  the code logs when the parsed descriptor is \<^verbatim>\<open>nil\<close>: on the empty string the parser
  returns no descriptor and no error.
\<close>

definition NewDsn_accepts_empty :: "(string \<Rightarrow> Dsn option \<times> string option) \<Rightarrow> bool" where
  "NewDsn_accepts_empty parse \<longleftrightarrow> parse [] = (None, None)"

definition setupTransport :: "sys \<Rightarrow> Client \<Rightarrow> Client \<times> call list" where
  "setupTransport s client =
     (let transport = (case opt_Transport (options client) of
                         None \<Rightarrow> HTTPTransport s
                       | Some t \<Rightarrow> t)
      in (client\<lparr>Transport := Some transport\<rparr>, [Configure_call (transport_ident transport)]))"

text \<open>The loop of \<^verbatim>\<open>setupIntegrations\<close>, over what is left of the slice.\<close>

fun install ::
  "Integration list \<Rightarrow> (string \<times> Integration) list \<Rightarrow> call list
     \<Rightarrow> (string \<times> Integration) list \<times> call list" where
  "install [] m calls = (m, calls)"
| "install (integration # rest) m calls =
     install rest (AList.update (Name integration) integration m)
       (calls @ [SetupOnce_call integration,
                 debugger_Printf (''Integration installed: '' @ Name integration @ [CHR 0x0A])])"

definition setupIntegrations :: "Client \<Rightarrow> Client \<times> call list" where
  "setupIntegrations client =
     (case Integrations (options client) of
        None \<Rightarrow> (client, [])
      | Some registered \<Rightarrow>
          (let (m, calls) = install registered [] []
           in (client\<lparr>integrations := Some m\<rparr>, calls)))"

definition NewClient :: "sys \<Rightarrow> ClientOptions \<Rightarrow> (Client option \<times> string option) \<times> call list" where
  "NewClient s options0 =
     (let debugging = (if Debug options0
                       then [debugger_SetOutput
                               (case DebugWriter options0 of
                                  None \<Rightarrow> Some (os_Stdout s)
                                | Some w \<Rightarrow> Some w)]
                       else []);
          options1 = (if opt_Dsn options0 = []
                      then options0\<lparr>opt_Dsn := Getenv s ''SENTRY_DSN''\<rparr> else options0);
          options2 = (if Release options1 = []
                      then options1\<lparr>Release := Getenv s ''SENTRY_RELEASE''\<rparr> else options1);
          options3 = (if Environment options2 = []
                      then options2\<lparr>Environment := Getenv s ''SENTRY_ENVIRONMENT''\<rparr>
                      else options2)
      in case NewDsn s (opt_Dsn options3) of
           (d, Some err) \<Rightarrow> ((None, Some err), debugging)
         | (d, None) \<Rightarrow>
             (let notice = (if d = None
                            then [debugger_Println ''Sentry client initialized with an empty DSN'']
                            else []);
                  client0 = \<lparr>options = options3, dsn = d, integrations = None, Transport = None\<rparr>;
                  (client1, configured) = setupTransport s client0;
                  (client2, installed) = setupIntegrations client1
              in ((Some client2, None), debugging @ notice @ configured @ installed)))"

subsection \<open>Reading the calls\<close>

text \<open>The integrations whose \<^verbatim>\<open>SetupOnce\<close> was called, in the order of the calls.\<close>

fun SetupOnce_calls :: "call list \<Rightarrow> Integration list" where
  "SetupOnce_calls [] = []"
| "SetupOnce_calls (SetupOnce_call i # calls) = i # SetupOnce_calls calls"
| "SetupOnce_calls (c # calls) = SetupOnce_calls calls"

subsection \<open>Example values\<close>

text \<open>A client, an environment and an event on which the properties below are run.\<close>

definition example_transport :: Transport where
  "example_transport = \<lparr>transport_ident = 7, SendEvent = (\<lambda>event. (Some (Response 200), None))\<rparr>"

definition example_options :: ClientOptions where
  "example_options =
     \<lparr>opt_Dsn = [], Debug = True, SampleRate = Finite 0, BeforeSend = None,
      Integrations = Some [\<lparr>Name = ''b'', ident = 0\<rparr>, \<lparr>Name = ''a'', ident = 1\<rparr>,
                           \<lparr>Name = ''c'', ident = 2\<rparr>],
      opt_Transport = Some example_transport, opt_ServerName = [], Release = [], Dist = [],
      Environment = [], MaxBreadcrumbs = 0, DebugWriter = None\<rparr>"

definition example_client :: Client where
  "example_client =
     \<lparr>options = example_options, dsn = None, integrations = None,
      Transport = Some example_transport\<rparr>"

definition example_env :: env where
  "example_env =
     \<lparr>rand_Float32 = Finite (1/2), uuid = ''0123456789abcdef0123456789abcdef'',
      now_Unix = 1557000000, os_Hostname = (''host'', None), range_order = rev,
      VERSION = ''0.0.1''\<rparr>"

definition example_event :: Event where
  "example_event = eventFromMessage ''boom''"

definition accept :: EventModifier where
  "accept event hint = Some event"

definition veto :: EventModifier where
  "veto event hint = None"

definition example_client_rate_one :: Client where
  "example_client_rate_one = example_client\<lparr>options := example_options\<lparr>SampleRate := Finite 1\<rparr>\<rparr>"

definition example_event_filled :: Event where
  "example_event_filled =
     \<lparr>EventID = ''e1'', Timestamp = 42, Level = ''fatal'', Message = ''boom'',
      ServerName = ''srv'', Platform = ''java'', Transaction = ''GET /'',
      Sdk = \<lparr>sdk_Name = ''other'', sdk_Version = ''9'', sdk_Integrations = [''x''],
             sdk_Packages = []\<rparr>\<rparr>"

definition drop_all :: "Event \<Rightarrow> EventHint option \<Rightarrow> Event option" where
  "drop_all event hint = None"

definition example_client_filtering :: Client where
  "example_client_filtering =
     example_client\<lparr>options := example_options\<lparr>BeforeSend := Some drop_all\<rparr>\<rparr>"

definition example_client_reordered :: Client where
  "example_client_reordered =
     example_client\<lparr>options := example_options
       \<lparr>Integrations := Some [\<lparr>Name = ''c'', ident = 2\<rparr>, \<lparr>Name = ''b'', ident = 0\<rparr>,
                              \<lparr>Name = ''a'', ident = 1\<rparr>]\<rparr>\<rparr>"

definition example_env_forward :: env where
  "example_env_forward = example_env\<lparr>range_order := (\<lambda>ks. ks)\<rparr>"

definition example_client_duplicates :: Client where
  "example_client_duplicates =
     example_client\<lparr>options := example_options
       \<lparr>Integrations := Some [\<lparr>Name = ''dup'', ident = 1\<rparr>, \<lparr>Name = ''other'', ident = 2\<rparr>,
                              \<lparr>Name = ''dup'', ident = 3\<rparr>]\<rparr>\<rparr>"

definition example_NewDsn :: "string \<Rightarrow> Dsn option \<times> string option" where
  "example_NewDsn raw =
     (if raw = [] then (None, None)
      else if raw = ''bad'' then (None, Some ''invalid dsn'')
      else (Some (Dsn raw), None))"

definition example_sys :: sys where
  "example_sys =
     \<lparr>Getenv = (\<lambda>name. []), NewDsn = example_NewDsn,
      HTTPTransport = \<lparr>transport_ident = 0, SendEvent = (\<lambda>event. (None, None))\<rparr>,
      os_Stdout = 1\<rparr>"

definition example_options_bad_dsn :: ClientOptions where
  "example_options_bad_dsn = example_options\<lparr>opt_Dsn := ''bad''\<rparr>"

text \<open>The example environment with the clock at the epoch.\<close>

definition example_env_epoch :: env where
  "example_env_epoch = example_env\<lparr>now_Unix := 0\<rparr>"

section \<open>Properties\<close>

subsection \<open>Auxiliary facts about preparation and sampling\<close>

lemma prepareEvent_Some:
  "prepareEvent e client (Some ev) hint (Some sc) =
     (Returns (sc (prepareEvent_defaults e client ev) hint),
      [ApplyToEvent_call (prepareEvent_defaults e client ev) hint
         (sc (prepareEvent_defaults e client ev) hint)])"
  by (simp add: prepareEvent_def Let_def)

lemma prepareEvent_defaults_draw:
  "prepareEvent_defaults (e\<lparr>rand_Float32 := r\<rparr>) client ev = prepareEvent_defaults e client ev"
  by (simp add: prepareEvent_defaults_def listIntegrations_def Let_def)

lemma prepareEvent_draw:
  "prepareEvent (e\<lparr>rand_Float32 := r\<rparr>) client event hint scope
     = prepareEvent e client event hint scope"
  by (cases event; cases scope) (simp_all add: prepareEvent_def prepareEvent_defaults_draw)

lemma prepareEvent_defaults_rate:
  "prepareEvent_defaults e (client\<lparr>options := (options client)\<lparr>SampleRate := x\<rparr>\<rparr>) ev
     = prepareEvent_defaults e client ev"
  by (simp add: prepareEvent_defaults_def listIntegrations_def Let_def)

lemma prepareEvent_rate:
  "prepareEvent e (client\<lparr>options := (options client)\<lparr>SampleRate := x\<rparr>\<rparr>) event hint scope
     = prepareEvent e client event hint scope"
  by (cases event; cases scope) (simp_all add: prepareEvent_def prepareEvent_defaults_rate)

text \<open>What \<^verbatim>\<open>processEvent\<close> does when the sampling stage lets the event through.\<close>

lemma processEvent_passed:
  assumes "\<not> (f32_neq (SampleRate (Options client)) (Finite 0)
              \<and> f32_gt (rand_Float32 e) (SampleRate (Options client)))"
  shows "\<exists>rest. snd (processEvent e client event hint scope) =
           (if f32_neq (SampleRate (Options client)) (Finite 0)
            then [Float32_call (rand_Float32 e)] else [])
           @ snd (prepareEvent e client event hint scope) @ rest"
proof (cases "prepareEvent e client event hint scope")
  case (Pair out prepared)
  show ?thesis
  proof (cases out)
    case Panics
    with Pair assms show ?thesis by (simp add: processEvent_def Let_def)
  next
    case (Returns r)
    show ?thesis
    proof (cases r)
      case None
      with Pair Returns assms show ?thesis by (simp add: processEvent_def Let_def)
    next
      case (Some event1)
      with Pair Returns assms show ?thesis
        by (simp add: processEvent_def Let_def split: option.split prod.split)
    qed
  qed
qed

lemma processEvent_rate_zero_calls:
  assumes "SampleRate (Options client) = Finite 0"
  shows "Float32_call r \<notin> set (snd (processEvent e client event hint scope))"
proof (cases "prepareEvent e client event hint scope")
  case (Pair out prepared)
  have prepared: "Float32_call r \<notin> set prepared"
    using Pair by (cases event; cases scope) (auto simp: prepareEvent_def Let_def)
  show ?thesis
  proof (cases out)
    case Panics
    with Pair assms prepared show ?thesis by (simp add: processEvent_def Let_def)
  next
    case (Returns r')
    show ?thesis
    proof (cases r')
      case None
      with Pair Returns assms prepared show ?thesis by (simp add: processEvent_def Let_def)
    next
      case (Some event1)
      with Pair Returns assms prepared show ?thesis
        by (auto simp: processEvent_def Let_def split: option.split prod.split)
    qed
  qed
qed

lemma processEvent_rate_zero_draw:
  assumes "SampleRate (Options client) = Finite 0"
  shows "processEvent (e\<lparr>rand_Float32 := r\<rparr>) client event hint scope
           = processEvent e client event hint scope"
  using assms by (simp add: processEvent_def prepareEvent_draw)

lemma processEvent_rate_one:
  assumes "SampleRate (Options client) = Finite 1"
    and "rand_Float32 e = Finite r" and "r \<le> 1"
  shows "processEvent e client event hint scope =
           (fst (processEvent e (client\<lparr>options := (options client)\<lparr>SampleRate := Finite 0\<rparr>\<rparr>) event hint scope),
            Float32_call (Finite r) #
            snd (processEvent e (client\<lparr>options := (options client)\<lparr>SampleRate := Finite 0\<rparr>\<rparr>) event hint scope))"
proof -
  let ?c0 = "client\<lparr>options := (options client)\<lparr>SampleRate := Finite 0\<rparr>\<rparr>"
  have opts: "BeforeSend (Options ?c0) = BeforeSend (Options client)" "Transport ?c0 = Transport client"
    "SampleRate (Options ?c0) = Finite 0"
    by (simp_all add: Options_def)
  obtain out prepared where p: "prepareEvent e client event hint scope = (out, prepared)"
    by (cases "prepareEvent e client event hint scope")
  show ?thesis
  proof (cases out)
    case Panics
    with p assms opts show ?thesis by (simp add: processEvent_def prepareEvent_rate Let_def)
  next
    case (Returns r')
    show ?thesis
    proof (cases r')
      case None
      with p Returns assms opts show ?thesis by (simp add: processEvent_def prepareEvent_rate Let_def)
    next
      case (Some event1)
      with p Returns assms opts show ?thesis
        by (simp add: processEvent_def prepareEvent_rate Let_def split: option.split prod.split)
    qed
  qed
qed

lemma EventID_defaults:
  "EventID (prepareEvent_defaults e client ev) = (if EventID ev = [] then uuid e else EventID ev)"
  by (simp add: prepareEvent_defaults_def Let_def split: prod.split option.split)

lemma Timestamp_defaults:
  "Timestamp (prepareEvent_defaults e client ev) = (if Timestamp ev = 0 then now_Unix e else Timestamp ev)"
  by (simp add: prepareEvent_defaults_def Let_def split: prod.split option.split)

lemma Level_defaults:
  "Level (prepareEvent_defaults e client ev) = (if Level ev = [] then LevelInfo else Level ev)"
  by (simp add: prepareEvent_defaults_def Let_def split: prod.split option.split)

lemma ServerName_defaults:
  "ServerName (prepareEvent_defaults e client ev) =
     (if ServerName ev = [] \<and> snd (os_Hostname e) = None then fst (os_Hostname e) else ServerName ev)"
  by (simp add: prepareEvent_defaults_def Let_def split: prod.split option.split)

lemma Message_defaults:
  "Message (prepareEvent_defaults e client ev) = Message ev"
  by (simp add: prepareEvent_defaults_def Let_def split: prod.split option.split)

lemma Sdk_defaults:
  "Sdk (prepareEvent_defaults e client ev) =
     \<lparr>sdk_Name = ''sentry.go'', sdk_Version = VERSION e,
      sdk_Integrations = listIntegrations e client,
      sdk_Packages = [\<lparr>pkg_Name = ''sentry-go'', pkg_Version = VERSION e\<rparr>]\<rparr>"
  by (simp add: prepareEvent_defaults_def Let_def split: prod.split option.split)

lemma Platform_defaults:
  "Platform (prepareEvent_defaults e client ev) = ''go''"
  by (simp add: prepareEvent_defaults_def Let_def split: prod.split option.split)

lemma Transaction_defaults:
  "Transaction (prepareEvent_defaults e client ev) = ''Don't sneak into my computer please''"
  by (simp add: prepareEvent_defaults_def Let_def split: prod.split option.split)


subsection \<open>Sampling\<close>

text \<open>
  C1. With a sampling rate of exactly 0.0 the sampling stage never drops the event and
  is bypassed entirely: \<^verbatim>\<open>processEvent\<close> makes no random draw, its result and calls do
  not depend on what a draw would have been, and the event goes on to preparation: the
  first call made is the scope's \<^verbatim>\<open>ApplyToEvent\<close> on the prepared event.
\<close>

theorem processEvent_rate_zero_bypasses_sampling:
  assumes "SampleRate (Options client) = Finite 0"
  shows "(\<forall>r. Float32_call r \<notin> set (snd (processEvent e client event hint scope)))
       \<and> (\<forall>r. processEvent (e\<lparr>rand_Float32 := r\<rparr>) client event hint scope
               = processEvent e client event hint scope)
       \<and> (\<forall>ev sc. event = Some ev \<longrightarrow> scope = Some sc \<longrightarrow>
            (\<exists>rest. snd (processEvent e client event hint scope) =
               ApplyToEvent_call (prepareEvent_defaults e client ev) hint
                 (sc (prepareEvent_defaults e client ev) hint) # rest))"
proof (intro conjI allI impI)
  fix r
  show "Float32_call r \<notin> set (snd (processEvent e client event hint scope))"
    using assms by (rule processEvent_rate_zero_calls)
next
  fix r
  show "processEvent (e\<lparr>rand_Float32 := r\<rparr>) client event hint scope = processEvent e client event hint scope"
    using assms by (rule processEvent_rate_zero_draw)
next
  fix ev sc assume "event = Some ev" "scope = Some sc"
  moreover have "\<not> (f32_neq (SampleRate (Options client)) (Finite 0)
              \<and> f32_gt (rand_Float32 e) (SampleRate (Options client)))"
    using assms by simp
  ultimately show "\<exists>rest. snd (processEvent e client event hint scope) =
               ApplyToEvent_call (prepareEvent_defaults e client ev) hint
                 (sc (prepareEvent_defaults e client ev) hint) # rest"
    using processEvent_passed [of client e "Some ev" hint "Some sc"] assms
    by (simp add: prepareEvent_Some)
qed

theorem processEvent_rate_zero_bypasses_sampling_witness:
  "SampleRate (Options example_client) = Finite 0
   \<and> (\<forall>r. Float32_call r \<notin> set (snd (processEvent example_env example_client (Some example_event) None (Some accept))))
   \<and> (\<exists>rest. snd (processEvent example_env example_client (Some example_event) None (Some accept)) =
               ApplyToEvent_call (prepareEvent_defaults example_env example_client example_event) None
                 (accept (prepareEvent_defaults example_env example_client example_event) None) # rest)"
proof -
  have h: "SampleRate (Options example_client) = Finite 0"
    by (simp add: Options_def example_client_def example_options_def)
  show ?thesis
    using h processEvent_rate_zero_bypasses_sampling [OF h, of example_env "Some example_event" None "Some accept"] by simp
qed


text \<open>
  C9. With a sampling rate of exactly 1.0, for every draw in the half-open interval from
  0 to 1 the event is not dropped by sampling: after the draw, \<^verbatim>\<open>processEvent\<close>
  does exactly what it does with sampling switched off, and the call after the draw is
  the scope's \<^verbatim>\<open>ApplyToEvent\<close> on the prepared event.
\<close>

theorem processEvent_rate_one_never_drops:
  assumes "SampleRate (Options client) = Finite 1"
    and "rand_Float32 e = Finite r" and "0 \<le> r" and "r < 1"
  shows "processEvent e client event hint scope =
           (fst (processEvent e (client\<lparr>options := (options client)\<lparr>SampleRate := Finite 0\<rparr>\<rparr>) event hint scope),
            Float32_call (Finite r) #
            snd (processEvent e (client\<lparr>options := (options client)\<lparr>SampleRate := Finite 0\<rparr>\<rparr>) event hint scope))
       \<and> (\<forall>ev sc. event = Some ev \<longrightarrow> scope = Some sc \<longrightarrow>
            (\<exists>rest. snd (processEvent e client event hint scope) =
               Float32_call (Finite r) #
               ApplyToEvent_call (prepareEvent_defaults e client ev) hint
                 (sc (prepareEvent_defaults e client ev) hint) # rest))"
proof (intro conjI allI impI)
  show "processEvent e client event hint scope =
           (fst (processEvent e (client\<lparr>options := (options client)\<lparr>SampleRate := Finite 0\<rparr>\<rparr>) event hint scope),
            Float32_call (Finite r) #
            snd (processEvent e (client\<lparr>options := (options client)\<lparr>SampleRate := Finite 0\<rparr>\<rparr>) event hint scope))"
    using assms by (intro processEvent_rate_one) simp_all
next
  fix ev sc assume "event = Some ev" "scope = Some sc"
  moreover have "\<not> (f32_neq (SampleRate (Options client)) (Finite 0)
              \<and> f32_gt (rand_Float32 e) (SampleRate (Options client)))"
    using assms by simp
  ultimately show "\<exists>rest. snd (processEvent e client event hint scope) =
               Float32_call (Finite r) #
               ApplyToEvent_call (prepareEvent_defaults e client ev) hint
                 (sc (prepareEvent_defaults e client ev) hint) # rest"
    using processEvent_passed [of client e "Some ev" hint "Some sc"] assms
    by (simp add: prepareEvent_Some)
qed

theorem processEvent_rate_one_never_drops_witness:
  "SampleRate (Options example_client_rate_one) = Finite 1
   \<and> rand_Float32 example_env = Finite (1/2) \<and> (0::real) \<le> 1/2 \<and> (1/2::real) < 1
   \<and> (\<exists>rest. snd (processEvent example_env example_client_rate_one (Some example_event) None (Some accept)) =
               Float32_call (Finite (1/2)) #
               ApplyToEvent_call (prepareEvent_defaults example_env example_client_rate_one example_event) None
                 (accept (prepareEvent_defaults example_env example_client_rate_one example_event) None) # rest)"
proof -
  have h1: "SampleRate (Options example_client_rate_one) = Finite 1"
    by (simp add: Options_def example_client_rate_one_def)
  have h2: "rand_Float32 example_env = Finite (1/2)"
    by (simp add: example_env_def)
  have h3: "(0::real) \<le> 1/2" and h4: "(1/2::real) < 1" by simp_all
  from processEvent_rate_one_never_drops [OF h1 h2 h3 h4, of "Some example_event" None "Some accept"]
  have "\<exists>rest. snd (processEvent example_env example_client_rate_one (Some example_event) None (Some accept)) =
               Float32_call (Finite (1/2)) #
               ApplyToEvent_call (prepareEvent_defaults example_env example_client_rate_one example_event) None
                 (accept (prepareEvent_defaults example_env example_client_rate_one example_event) None) # rest"
    by blast
  with h1 h2 h3 h4 show ?thesis by blast
qed


subsection \<open>Preparation\<close>

text \<open>
  C2, as amended. The event that \<^verbatim>\<open>prepareEvent\<close> hands to the scope has a non-empty
  identifier and a non-empty level, the level being \<^verbatim>\<open>info\<close> when the caller gave
  none; its timestamp is non-zero exactly when the caller gave a timestamp or the clock's
  Unix time is not 0. The identifier generator is outside client.go: the statement is
  for a generator that returns an identifier.
\<close>

theorem prepareEvent_fills_id_timestamp_level:
  assumes "uuid_generates_identifier e"
  shows "\<exists>ev'. prepareEvent e client (Some ev) hint (Some sc)
                  = (Returns (sc ev' hint), [ApplyToEvent_call ev' hint (sc ev' hint)])
            \<and> EventID ev' \<noteq> []
            \<and> (Timestamp ev' \<noteq> 0 \<longleftrightarrow> Timestamp ev \<noteq> 0 \<or> now_Unix e \<noteq> 0)
            \<and> Level ev' \<noteq> []
            \<and> (Level ev = [] \<longrightarrow> Level ev' = ''info'')"
proof (intro exI conjI)
  show "prepareEvent e client (Some ev) hint (Some sc)
          = (Returns (sc (prepareEvent_defaults e client ev) hint),
             [ApplyToEvent_call (prepareEvent_defaults e client ev) hint
                (sc (prepareEvent_defaults e client ev) hint)])"
    by (rule prepareEvent_Some)
  show "EventID (prepareEvent_defaults e client ev) \<noteq> []"
    using assms by (simp add: EventID_defaults uuid_generates_identifier_def)
  show "Timestamp (prepareEvent_defaults e client ev) \<noteq> 0
          \<longleftrightarrow> Timestamp ev \<noteq> 0 \<or> now_Unix e \<noteq> 0"
    by (simp add: Timestamp_defaults)
  show "Level (prepareEvent_defaults e client ev) \<noteq> []"
    by (simp add: Level_defaults LevelInfo_def)
  show "Level ev = [] \<longrightarrow> Level (prepareEvent_defaults e client ev) = ''info''"
    by (simp add: Level_defaults LevelInfo_def)
qed

theorem prepareEvent_fills_id_timestamp_level_witness:
  "uuid_generates_identifier example_env \<and> now_Unix example_env \<noteq> 0
   \<and> Timestamp example_event = 0 \<and> Level example_event = []
   \<and> (\<exists>ev'. prepareEvent example_env example_client (Some example_event) None (Some accept)
                  = (Returns (accept ev' None), [ApplyToEvent_call ev' None (accept ev' None)])
            \<and> EventID ev' \<noteq> [] \<and> Timestamp ev' \<noteq> 0 \<and> Level ev' = ''info'')"
proof -
  have h1: "uuid_generates_identifier example_env" and h2: "now_Unix example_env \<noteq> 0"
    by (simp_all add: example_env_def uuid_generates_identifier_def)
  have h3: "Level example_event = []" and h4: "Timestamp example_event = 0"
    by (simp_all add: example_event_def eventFromMessage_def Event_zero_def)
  show ?thesis
    using h1 h2 h3 h4
      prepareEvent_fills_id_timestamp_level [OF h1, of example_client example_event None accept]
    by auto
qed

text \<open>
  C2 as first stated, with a non-zero timestamp for every prepared event, fails when the
  caller gives no timestamp and the clock reads exactly 0: \<^verbatim>\<open>event.Timestamp\<close> is
  assigned \<^verbatim>\<open>time.Now().Unix()\<close>, which is 0, and the event goes to the scope with
  timestamp 0.
\<close>

theorem prepareEvent_timestamp_zero_at_epoch:
  "uuid_generates_identifier example_env_epoch
   \<and> prepareEvent example_env_epoch example_client (Some example_event) None (Some accept)
       = (Returns (Some (prepareEvent_defaults example_env_epoch example_client example_event)),
          [ApplyToEvent_call (prepareEvent_defaults example_env_epoch example_client example_event)
             None (Some (prepareEvent_defaults example_env_epoch example_client example_event))])
   \<and> Timestamp (prepareEvent_defaults example_env_epoch example_client example_event) = 0
   \<and> \<not> (EventID (prepareEvent_defaults example_env_epoch example_client example_event) \<noteq> []
          \<and> Timestamp (prepareEvent_defaults example_env_epoch example_client example_event) \<noteq> 0
          \<and> Level (prepareEvent_defaults example_env_epoch example_client example_event) \<noteq> [])"
proof -
  have t: "Timestamp (prepareEvent_defaults example_env_epoch example_client example_event) = 0"
    by (simp add: Timestamp_defaults example_env_epoch_def example_event_def
          eventFromMessage_def Event_zero_def)
  have u: "uuid_generates_identifier example_env_epoch"
    by (simp add: uuid_generates_identifier_def example_env_epoch_def example_env_def)
  have p: "prepareEvent example_env_epoch example_client (Some example_event) None (Some accept)
       = (Returns (Some (prepareEvent_defaults example_env_epoch example_client example_event)),
          [ApplyToEvent_call (prepareEvent_defaults example_env_epoch example_client example_event)
             None (Some (prepareEvent_defaults example_env_epoch example_client example_event))])"
    by (simp add: prepareEvent_Some accept_def)
  from t u p show ?thesis by simp
qed

text \<open>
  C6. In the event that \<^verbatim>\<open>prepareEvent\<close> hands to the scope, the SDK metadata, the
  platform tag and the transaction label are the client's values whatever they were
  before, while identifier, timestamp, level and server name keep a value that was set
  and get their default only when unset; the message is untouched.
\<close>

theorem prepareEvent_overwrites_and_defaults:
  "\<exists>ev'. prepareEvent e client (Some ev) hint (Some sc)
            = (Returns (sc ev' hint), [ApplyToEvent_call ev' hint (sc ev' hint)])
      \<and> Sdk ev' = \<lparr>sdk_Name = ''sentry.go'', sdk_Version = VERSION e,
                    sdk_Integrations = listIntegrations e client,
                    sdk_Packages = [\<lparr>pkg_Name = ''sentry-go'', pkg_Version = VERSION e\<rparr>]\<rparr>
      \<and> Platform ev' = ''go''
      \<and> Transaction ev' = ''Don't sneak into my computer please''
      \<and> (EventID ev \<noteq> [] \<longrightarrow> EventID ev' = EventID ev)
      \<and> (EventID ev = [] \<longrightarrow> EventID ev' = uuid e)
      \<and> (Timestamp ev \<noteq> 0 \<longrightarrow> Timestamp ev' = Timestamp ev)
      \<and> (Timestamp ev = 0 \<longrightarrow> Timestamp ev' = now_Unix e)
      \<and> (Level ev \<noteq> [] \<longrightarrow> Level ev' = Level ev)
      \<and> (Level ev = [] \<longrightarrow> Level ev' = LevelInfo)
      \<and> (ServerName ev \<noteq> [] \<longrightarrow> ServerName ev' = ServerName ev)
      \<and> (ServerName ev = [] \<longrightarrow>
            ServerName ev' = (case os_Hostname e of (hostname, None) \<Rightarrow> hostname
                                                   | (hostname, Some err) \<Rightarrow> []))
      \<and> Message ev' = Message ev"
proof (intro exI conjI)
  show "prepareEvent e client (Some ev) hint (Some sc)
          = (Returns (sc (prepareEvent_defaults e client ev) hint),
             [ApplyToEvent_call (prepareEvent_defaults e client ev) hint
                (sc (prepareEvent_defaults e client ev) hint)])"
    by (rule prepareEvent_Some)
qed (simp_all add: EventID_defaults Timestamp_defaults Level_defaults ServerName_defaults
       Message_defaults Sdk_defaults Platform_defaults Transaction_defaults
       split: prod.split option.split)


theorem prepareEvent_overwrites_and_defaults_witness:
  "(EventID example_event_filled \<noteq> [] \<and> Timestamp example_event_filled \<noteq> 0
      \<and> Level example_event_filled \<noteq> [] \<and> ServerName example_event_filled \<noteq> []
      \<and> (\<exists>ev'. prepareEvent example_env example_client (Some example_event_filled) None (Some accept)
                   = (Returns (accept ev' None), [ApplyToEvent_call ev' None (accept ev' None)])
             \<and> EventID ev' = ''e1'' \<and> Timestamp ev' = 42 \<and> Level ev' = ''fatal''
             \<and> ServerName ev' = ''srv'' \<and> Platform ev' = ''go''
             \<and> Transaction ev' = ''Don't sneak into my computer please''
             \<and> sdk_Name (Sdk ev') = ''sentry.go''))
   \<and> (EventID example_event = [] \<and> Timestamp example_event = 0
      \<and> Level example_event = [] \<and> ServerName example_event = []
      \<and> (\<exists>ev'. prepareEvent example_env example_client (Some example_event) None (Some accept)
                   = (Returns (accept ev' None), [ApplyToEvent_call ev' None (accept ev' None)])
             \<and> EventID ev' = ''0123456789abcdef0123456789abcdef'' \<and> Timestamp ev' = 1557000000
             \<and> Level ev' = ''info'' \<and> ServerName ev' = ''host'' \<and> Platform ev' = ''go''))"
proof (intro conjI)
  from prepareEvent_overwrites_and_defaults [of example_env example_client example_event_filled None accept]
  show "\<exists>ev'. prepareEvent example_env example_client (Some example_event_filled) None (Some accept)
                   = (Returns (accept ev' None), [ApplyToEvent_call ev' None (accept ev' None)])
             \<and> EventID ev' = ''e1'' \<and> Timestamp ev' = 42 \<and> Level ev' = ''fatal''
             \<and> ServerName ev' = ''srv'' \<and> Platform ev' = ''go''
             \<and> Transaction ev' = ''Don't sneak into my computer please''
             \<and> sdk_Name (Sdk ev') = ''sentry.go''"
    by (auto simp: example_event_filled_def)
  from prepareEvent_overwrites_and_defaults [of example_env example_client example_event None accept]
  show "\<exists>ev'. prepareEvent example_env example_client (Some example_event) None (Some accept)
                   = (Returns (accept ev' None), [ApplyToEvent_call ev' None (accept ev' None)])
             \<and> EventID ev' = ''0123456789abcdef0123456789abcdef'' \<and> Timestamp ev' = 1557000000
             \<and> Level ev' = ''info'' \<and> ServerName ev' = ''host'' \<and> Platform ev' = ''go''"
    by (auto simp: example_event_def eventFromMessage_def Event_zero_def example_env_def LevelInfo_def)
qed (simp_all add: example_event_filled_def example_event_def eventFromMessage_def Event_zero_def)


subsection \<open>Short-circuiting of the stages\<close>

lemma prepareEvent_cases:
  "prepareEvent e client event hint scope = (Panics, [])
   \<or> (\<exists>ev' sc. scope = Some sc \<and>
         prepareEvent e client event hint scope
           = (Returns (sc ev' hint), [ApplyToEvent_call ev' hint (sc ev' hint)]))"
  by (cases event; cases scope) (simp_all add: prepareEvent_def Let_def)

text \<open>The calls of \<^verbatim>\<open>processEvent\<close>, stage by stage.\<close>

lemma processEvent_calls:
  "\<exists>drawn. (\<forall>c \<in> set drawn. \<exists>x. c = Float32_call x) \<and>
     (snd (processEvent e client event hint scope) = drawn
      \<or> (\<exists>ev1 sc. scope = Some sc \<and>
            (snd (processEvent e client event hint scope)
               = drawn @ [ApplyToEvent_call ev1 hint None] \<and> sc ev1 hint = None
             \<or> (\<exists>ev2. sc ev1 hint = Some ev2 \<and>
                   (BeforeSend (Options client) = None \<and>
                      (snd (processEvent e client event hint scope)
                         = drawn @ [ApplyToEvent_call ev1 hint (Some ev2)]
                       \<or> snd (processEvent e client event hint scope)
                         = drawn @ [ApplyToEvent_call ev1 hint (Some ev2), SendEvent_call ev2])
                    \<or> (\<exists>f h. BeforeSend (Options client) = Some f \<and> h \<noteq> None \<and>
                          h = Some (case hint of None \<Rightarrow> EventHint_zero | Some x \<Rightarrow> x) \<and>
                          (snd (processEvent e client event hint scope)
                             = drawn @ [ApplyToEvent_call ev1 hint (Some ev2),
                                        BeforeSend_call ev2 h None] \<and> f ev2 h = None
                           \<or> (\<exists>ev3. f ev2 h = Some ev3 \<and>
                                (snd (processEvent e client event hint scope)
                                   = drawn @ [ApplyToEvent_call ev1 hint (Some ev2),
                                              BeforeSend_call ev2 h (Some ev3)]
                                 \<or> snd (processEvent e client event hint scope)
                                   = drawn @ [ApplyToEvent_call ev1 hint (Some ev2),
                                              BeforeSend_call ev2 h (Some ev3),
                                              SendEvent_call ev3])))))))))"
proof -
  let ?drawn = "if f32_neq (SampleRate (Options client)) (Finite 0)
                then [Float32_call (rand_Float32 e)] else []"
  have d: "\<forall>c \<in> set ?drawn. \<exists>x. c = Float32_call x" by simp
  show ?thesis
  proof (cases "f32_neq (SampleRate (Options client)) (Finite 0)
                 \<and> f32_gt (rand_Float32 e) (SampleRate (Options client))")
    case True
    then have "snd (processEvent e client event hint scope) = ?drawn"
      by (simp add: processEvent_def)
    with d show ?thesis by blast
  next
    case pass: False
    from prepareEvent_cases [of e client event hint scope] show ?thesis
    proof (elim disjE exE conjE)
      assume "prepareEvent e client event hint scope = (Panics, [])"
      with pass have "snd (processEvent e client event hint scope) = ?drawn"
        by (simp add: processEvent_def Let_def)
      with d show ?thesis by blast
    next
      fix ev1 sc
      assume sc: "scope = Some sc"
        and p: "prepareEvent e client event hint scope
                  = (Returns (sc ev1 hint), [ApplyToEvent_call ev1 hint (sc ev1 hint)])"
      show ?thesis
      proof (cases "sc ev1 hint")
        case None
        with pass p have "snd (processEvent e client event hint scope)
                            = ?drawn @ [ApplyToEvent_call ev1 hint None]"
          by (simp add: processEvent_def Let_def)
        with d sc None show ?thesis by blast
      next
        case (Some ev2)
        show ?thesis
        proof (cases "BeforeSend (Options client)")
          case nofilter: None
          have "snd (processEvent e client event hint scope)
                  = ?drawn @ [ApplyToEvent_call ev1 hint (Some ev2)]
                \<or> snd (processEvent e client event hint scope)
                  = ?drawn @ [ApplyToEvent_call ev1 hint (Some ev2), SendEvent_call ev2]"
            using pass p Some nofilter
            by (cases "Transport client") (simp_all add: processEvent_def Let_def)
          with d sc Some nofilter show ?thesis by blast
        next
          case filter: (Some f)
          let ?h = "Some (case hint of None \<Rightarrow> EventHint_zero | Some x \<Rightarrow> x)"
          have h: "(case hint of None \<Rightarrow> Some EventHint_zero | Some x \<Rightarrow> Some x) = ?h"
            by (cases hint) simp_all
          show ?thesis
          proof (cases "f ev2 ?h")
            case None
            have "snd (processEvent e client event hint scope)
                    = ?drawn @ [ApplyToEvent_call ev1 hint (Some ev2), BeforeSend_call ev2 ?h None]"
              using pass p Some filter None h
              by (simp add: processEvent_def Let_def)
            with d sc Some filter None show ?thesis by blast
          next
            case sent: (Some ev3)
            have "snd (processEvent e client event hint scope)
                    = ?drawn @ [ApplyToEvent_call ev1 hint (Some ev2),
                                BeforeSend_call ev2 ?h (Some ev3)]
                  \<or> snd (processEvent e client event hint scope)
                    = ?drawn @ [ApplyToEvent_call ev1 hint (Some ev2),
                                BeforeSend_call ev2 ?h (Some ev3), SendEvent_call ev3]"
              using pass p Some filter sent h
              by (cases "Transport client") (simp_all add: processEvent_def Let_def)
            with d sc Some filter sent show ?thesis by blast
          qed
        qed
      qed
    qed
  qed
qed

lemma processEvent_short_circuit:
  assumes "calls = snd (processEvent e client event hint scope)"
  shows "(ApplyToEvent_call ev h None \<in> set calls \<longrightarrow>
            (\<forall>ev' h' r. BeforeSend_call ev' h' r \<notin> set calls)
            \<and> (\<forall>ev'. SendEvent_call ev' \<notin> set calls))
       \<and> (BeforeSend_call ev h None \<in> set calls \<longrightarrow> (\<forall>ev'. SendEvent_call ev' \<notin> set calls))"
  using processEvent_calls [of e client event hint scope] unfolding assms
  by (elim exE conjE disjE) auto

lemma processEvent_results_recorded:
  assumes "calls = snd (processEvent e client event hint scope)"
  shows "(ApplyToEvent_call ev h r \<in> set calls \<longrightarrow> h = hint \<and> (\<exists>sc. scope = Some sc \<and> r = sc ev h))
       \<and> (BeforeSend_call ev h r \<in> set calls \<longrightarrow>
            h = Some (case hint of None \<Rightarrow> EventHint_zero | Some x \<Rightarrow> x)
            \<and> (\<exists>f. BeforeSend (Options client) = Some f \<and> r = f ev h))"
  using processEvent_calls [of e client event hint scope] unfolding assms
  by (elim exE conjE disjE) auto

lemma CaptureEvent_calls:
  "\<exists>extra. snd (CaptureEvent e client event hint scope)
             = snd (processEvent e client event hint scope) @ extra
          \<and> (\<forall>c \<in> set extra. \<exists>m. c = debugger_Println m)"
  by (cases "processEvent e client event hint scope")
     (auto simp: CaptureEvent_def split: outcome.split option.split)

lemma CaptureEvent_pipeline_calls:
  "ApplyToEvent_call ev h r \<in> set (snd (CaptureEvent e client event hint scope))
     \<longleftrightarrow> ApplyToEvent_call ev h r \<in> set (snd (processEvent e client event hint scope))"
  "BeforeSend_call ev h r \<in> set (snd (CaptureEvent e client event hint scope))
     \<longleftrightarrow> BeforeSend_call ev h r \<in> set (snd (processEvent e client event hint scope))"
  "SendEvent_call ev \<in> set (snd (CaptureEvent e client event hint scope))
     \<longleftrightarrow> SendEvent_call ev \<in> set (snd (processEvent e client event hint scope))"
  using CaptureEvent_calls [of e client event hint scope] by auto

lemma CaptureException_calls:
  "snd (CaptureException e client exception hint scope) = []
   \<or> (\<exists>event. snd (CaptureException e client exception hint scope)
                 = snd (CaptureEvent e client (Some event) hint scope))"
proof (cases exception)
  case None
  then show ?thesis by (simp add: CaptureException_def eventFromException_def)
next
  case (Some err)
  then have "snd (CaptureException e client exception hint scope)
               = snd (CaptureEvent e client (Some (Event_zero\<lparr>Message := Error err\<rparr>)) hint scope)"
    by (simp add: CaptureException_def eventFromException_def)
  then show ?thesis by blast
qed

lemma example_calls_veto:
  "snd (CaptureEvent example_env example_client (Some example_event) None (Some veto)) =
     [ApplyToEvent_call (prepareEvent_defaults example_env example_client example_event) None None,
      debugger_Println ''event dropped by one of the EventProcessors'']"
  by (simp add: CaptureEvent_def processEvent_def prepareEvent_Some Options_def Let_def
        example_client_def example_options_def veto_def)

lemma example_calls_filtered:
  "snd (CaptureEvent example_env example_client_filtering (Some example_event) None (Some accept)) =
     [ApplyToEvent_call (prepareEvent_defaults example_env example_client_filtering example_event) None
        (Some (prepareEvent_defaults example_env example_client_filtering example_event)),
      BeforeSend_call (prepareEvent_defaults example_env example_client_filtering example_event)
        (Some EventHint_zero) None,
      debugger_Println ''event dropped due to BeforeSend callback'']"
  by (simp add: CaptureEvent_def processEvent_def prepareEvent_Some Options_def Let_def
        example_client_filtering_def example_client_def example_options_def accept_def drop_all_def)

text \<open>
  C3. The stages short-circuit in order. In the calls of any capture entry point
  (and of \<^verbatim>\<open>processEvent\<close> itself): if the scope's \<^verbatim>\<open>ApplyToEvent\<close> returned no
  event, the pre-send filter is never called and the transport's \<^verbatim>\<open>SendEvent\<close> is
  never called; if the pre-send filter returned no event, \<^verbatim>\<open>SendEvent\<close> is never
  called. The result recorded with a call is what the scope, or the configured filter,
  returned on the recorded arguments.
\<close>

theorem capture_stages_short_circuit:
  assumes "calls \<in> {snd (processEvent e client event hint scope),
                     snd (CaptureEvent e client event hint scope),
                     snd (CaptureMessage e client message hint scope),
                     snd (CaptureException e client exception hint scope)}"
  shows "(ApplyToEvent_call ev h None \<in> set calls \<longrightarrow>
            (\<forall>ev' h' r. BeforeSend_call ev' h' r \<notin> set calls)
            \<and> (\<forall>ev'. SendEvent_call ev' \<notin> set calls))
       \<and> (BeforeSend_call ev h None \<in> set calls \<longrightarrow> (\<forall>ev'. SendEvent_call ev' \<notin> set calls))
       \<and> (\<forall>r. ApplyToEvent_call ev h r \<in> set calls \<longrightarrow> (\<exists>sc. scope = Some sc \<and> r = sc ev h))
       \<and> (\<forall>r. BeforeSend_call ev h r \<in> set calls \<longrightarrow>
             (\<exists>f. BeforeSend (Options client) = Some f \<and> r = f ev h))"
    (is "?P calls")
proof -
  have pe: "?P (snd (processEvent e client event' hint scope))" for event'
    using processEvent_short_circuit [OF refl, of ev h e client event' hint scope]
      processEvent_results_recorded [OF refl, of ev h _ e client event' hint scope]
    by blast
  have ce: "?P (snd (CaptureEvent e client event' hint scope))" for event'
    using pe [of event'] unfolding CaptureEvent_pipeline_calls .
  have cm: "?P (snd (CaptureMessage e client message hint scope))"
    unfolding CaptureMessage_def by (rule ce)
  have cx: "?P (snd (CaptureException e client exception hint scope))"
    using CaptureException_calls [of e client exception hint scope] ce by (elim disjE exE) simp_all
  from assms consider
      (process) "calls = snd (processEvent e client event hint scope)"
    | (event) "calls = snd (CaptureEvent e client event hint scope)"
    | (message) "calls = snd (CaptureMessage e client message hint scope)"
    | (exception) "calls = snd (CaptureException e client exception hint scope)"
    by blast
  then show ?thesis
  proof cases
    case process
    show ?thesis unfolding process by (rule pe)
  next
    case event
    show ?thesis unfolding event by (rule ce)
  next
    case message
    show ?thesis unfolding message by (rule cm)
  next
    case exception
    show ?thesis unfolding exception by (rule cx)
  qed
qed

theorem capture_stages_short_circuit_witness:
  "(ApplyToEvent_call (prepareEvent_defaults example_env example_client example_event) None None
      \<in> set (snd (CaptureEvent example_env example_client (Some example_event) None (Some veto)))
    \<and> (\<forall>ev' h' r. BeforeSend_call ev' h' r
          \<notin> set (snd (CaptureEvent example_env example_client (Some example_event) None (Some veto))))
    \<and> (\<forall>ev'. SendEvent_call ev'
          \<notin> set (snd (CaptureEvent example_env example_client (Some example_event) None (Some veto)))))
   \<and> (BeforeSend_call (prepareEvent_defaults example_env example_client_filtering example_event)
        (Some EventHint_zero) None
      \<in> set (snd (CaptureEvent example_env example_client_filtering (Some example_event) None (Some accept)))
    \<and> (\<forall>ev'. SendEvent_call ev'
          \<notin> set (snd (CaptureEvent example_env example_client_filtering (Some example_event) None (Some accept)))))"
proof -
  let ?v = "snd (CaptureEvent example_env example_client (Some example_event) None (Some veto))"
  let ?f = "snd (CaptureEvent example_env example_client_filtering (Some example_event) None (Some accept))"
  have v_in: "?v \<in> {snd (processEvent example_env example_client (Some example_event) None (Some veto)),
                     ?v,
                     snd (CaptureMessage example_env example_client ''boom'' None (Some veto)),
                     snd (CaptureException example_env example_client None None (Some veto))}"
    by simp
  have f_in: "?f \<in> {snd (processEvent example_env example_client_filtering (Some example_event) None (Some accept)),
                     ?f,
                     snd (CaptureMessage example_env example_client_filtering ''boom'' None (Some accept)),
                     snd (CaptureException example_env example_client_filtering None None (Some accept))}"
    by simp
  have v_mem: "ApplyToEvent_call (prepareEvent_defaults example_env example_client example_event) None None \<in> set ?v"
    by (simp add: example_calls_veto)
  have f_mem: "BeforeSend_call (prepareEvent_defaults example_env example_client_filtering example_event)
                 (Some EventHint_zero) None \<in> set ?f"
    by (simp add: example_calls_filtered)
  from capture_stages_short_circuit [OF v_in, of "prepareEvent_defaults example_env example_client example_event" None] v_mem
  have 1: "(\<forall>ev' h' r. BeforeSend_call ev' h' r \<notin> set ?v) \<and> (\<forall>ev'. SendEvent_call ev' \<notin> set ?v)"
    by blast
  from capture_stages_short_circuit [OF f_in, of "prepareEvent_defaults example_env example_client_filtering example_event"
             "Some EventHint_zero"] f_mem
  have 2: "\<forall>ev'. SendEvent_call ev' \<notin> set ?f"
    by blast
  from v_mem f_mem 1 2 show ?thesis by blast
qed

text \<open>
  C10. Whenever the configured pre-send callback is called, the hint it receives is not
  nil: it is a fresh empty \<^verbatim>\<open>EventHint\<close> when the capture call gave none, and the
  caller's hint otherwise.
\<close>

theorem BeforeSend_hint_never_nil:
  assumes "calls \<in> {snd (processEvent e client event hint scope),
                     snd (CaptureEvent e client event hint scope),
                     snd (CaptureMessage e client message hint scope),
                     snd (CaptureException e client exception hint scope)}"
    and "BeforeSend_call ev h r \<in> set calls"
  shows "h \<noteq> None
       \<and> (hint = None \<longrightarrow> h = Some EventHint_zero)
       \<and> (hint \<noteq> None \<longrightarrow> h = hint)
       \<and> (\<exists>beforeSend. BeforeSend (Options client) = Some beforeSend \<and> r = beforeSend ev h)"
proof -
  have pe: "BeforeSend_call ev h r \<in> set (snd (processEvent e client event' hint scope)) \<Longrightarrow>
              h = Some (case hint of None \<Rightarrow> EventHint_zero | Some x \<Rightarrow> x)
              \<and> (\<exists>f. BeforeSend (Options client) = Some f \<and> r = f ev h)" for event'
    using processEvent_results_recorded [OF refl, of ev h r e client event' hint scope] by blast
  have ce: "BeforeSend_call ev h r \<in> set (snd (CaptureEvent e client event' hint scope)) \<Longrightarrow>
              h = Some (case hint of None \<Rightarrow> EventHint_zero | Some x \<Rightarrow> x)
              \<and> (\<exists>f. BeforeSend (Options client) = Some f \<and> r = f ev h)" for event'
    using pe [of event'] unfolding CaptureEvent_pipeline_calls .
  from assms(1) consider
      (process) "calls = snd (processEvent e client event hint scope)"
    | (event) "calls = snd (CaptureEvent e client event hint scope)"
    | (message) "calls = snd (CaptureMessage e client message hint scope)"
    | (exception) "calls = snd (CaptureException e client exception hint scope)"
    by blast
  then have "h = Some (case hint of None \<Rightarrow> EventHint_zero | Some x \<Rightarrow> x)
              \<and> (\<exists>f. BeforeSend (Options client) = Some f \<and> r = f ev h)"
  proof cases
    case process
    with assms(2) pe show ?thesis by blast
  next
    case event
    with assms(2) ce show ?thesis by blast
  next
    case message
    with assms(2) ce show ?thesis unfolding CaptureMessage_def by blast
  next
    case exception
    with assms(2) CaptureException_calls [of e client exception hint scope] ce
    show ?thesis by (elim disjE exE) simp_all
  qed
  then show ?thesis by (cases hint) auto
qed

theorem BeforeSend_hint_never_nil_witness:
  "BeforeSend_call (prepareEvent_defaults example_env example_client_filtering example_event)
        (Some EventHint_zero) None
      \<in> set (snd (CaptureEvent example_env example_client_filtering (Some example_event) None (Some accept)))
   \<and> Some EventHint_zero \<noteq> None"
proof -
  let ?f = "snd (CaptureEvent example_env example_client_filtering (Some example_event) None (Some accept))"
  have f_in: "?f \<in> {snd (processEvent example_env example_client_filtering (Some example_event) None (Some accept)),
                     ?f,
                     snd (CaptureMessage example_env example_client_filtering ''boom'' None (Some accept)),
                     snd (CaptureException example_env example_client_filtering None None (Some accept))}"
    by simp
  have f_mem: "BeforeSend_call (prepareEvent_defaults example_env example_client_filtering example_event)
                 (Some EventHint_zero) None \<in> set ?f"
    by (simp add: example_calls_filtered)
  from BeforeSend_hint_never_nil [OF f_in f_mem] f_mem show ?thesis by blast
qed


subsection \<open>Recovery\<close>

text \<open>
  C4. A recovery helper given a present recovered value, directly or through the
  builtin, dispatches exactly one capture-by-error call when the value is an error,
  exactly one capture-by-message call when it is a plain string, and no call for a value
  of any other type. \<^verbatim>\<open>RecoverWithContext\<close> dispatches on the hub attached to the
  context when there is one and on the current hub otherwise.
\<close>

theorem Recover_dispatch_by_dynamic_type:
  "Recover recover_builtin (Some (Error_value err)) = [CaptureException_call err]
   \<and> Recover recover_builtin (Some (String_value msg)) = [CaptureMessage_call msg]
   \<and> Recover recover_builtin (Some (Other_value v)) = []
   \<and> Recover (Some (Error_value err)) None = [CaptureException_call err]
   \<and> Recover (Some (String_value msg)) None = [CaptureMessage_call msg]
   \<and> Recover (Some (Other_value v)) None = []
   \<and> RecoverWithContext hs recover_builtin ctx (Some (Error_value err))
       = [Hub_CaptureException_call
            (if HasHubOnContext hs ctx then GetHubFromContext hs ctx else CurrentHub hs)
            err \<lparr>hint_Context = ctx\<rparr>]
   \<and> RecoverWithContext hs recover_builtin ctx (Some (String_value msg))
       = [Hub_CaptureMessage_call
            (if HasHubOnContext hs ctx then GetHubFromContext hs ctx else CurrentHub hs)
            msg \<lparr>hint_Context = ctx\<rparr>]
   \<and> RecoverWithContext hs recover_builtin ctx (Some (Other_value v)) = []
   \<and> RecoverWithContext hs (Some (Error_value err)) ctx None
       = [Hub_CaptureException_call
            (if HasHubOnContext hs ctx then GetHubFromContext hs ctx else CurrentHub hs)
            err \<lparr>hint_Context = ctx\<rparr>]
   \<and> RecoverWithContext hs (Some (String_value msg)) ctx None
       = [Hub_CaptureMessage_call
            (if HasHubOnContext hs ctx then GetHubFromContext hs ctx else CurrentHub hs)
            msg \<lparr>hint_Context = ctx\<rparr>]
   \<and> RecoverWithContext hs (Some (Other_value v)) ctx None = []"
  by (simp add: Recover_def RecoverWithContext_def Let_def)


theorem Recover_dispatch_by_dynamic_type_witness:
  "Recover None (Some (Error_value (GoError ''failed''))) = [CaptureException_call (GoError ''failed'')]
   \<and> Recover None (Some (String_value ''out of cheese'')) = [CaptureMessage_call ''out of cheese'']
   \<and> Recover None (Some (Other_value 42)) = []"
  using Recover_dispatch_by_dynamic_type [of None "GoError ''failed''" "''out of cheese''" 42] by blast


subsection \<open>Integrations\<close>

lemma SetupOnce_calls_append:
  "SetupOnce_calls (cs @ ds) = SetupOnce_calls cs @ SetupOnce_calls ds"
  by (induction cs rule: SetupOnce_calls.induct) simp_all

lemma install_hooks:
  "SetupOnce_calls (snd (install xs m calls)) = SetupOnce_calls calls @ xs"
  by (induction xs arbitrary: m calls) (simp_all add: SetupOnce_calls_append)

lemma install_distinct:
  "distinct (map fst m) \<Longrightarrow> distinct (map fst (fst (install xs m calls)))"
  by (induction xs arbitrary: m calls) (simp_all add: distinct_update)

lemma install_keys:
  "set (map fst (fst (install xs m calls))) = Name ` set xs \<union> set (map fst m)"
proof (induction xs arbitrary: m calls)
  case Nil
  show ?case by simp
next
  case (Cons x xs)
  have "fst ` set (AList.update (Name x) x m) = {Name x} \<union> fst ` set m"
    by (rule dom_update)
  with Cons show ?case by auto
qed

lemma install_map_of:
  "map_of (fst (install xs m calls)) n =
     (if filter (\<lambda>j. Name j = n) xs = [] then map_of m n
      else Some (last (filter (\<lambda>j. Name j = n) xs)))"
proof (induction xs arbitrary: m calls)
  case Nil
  show ?case by simp
next
  case (Cons x xs)
  show ?case by (simp add: Cons update_conv')
qed

lemma single_entry:
  "distinct (map fst al) \<Longrightarrow> map_of al k = Some v \<Longrightarrow> filter (\<lambda>p. fst p = k) al = [(k, v)]"
proof (induction al)
  case Nil
  then show ?case by simp
next
  case (Cons p al)
  show ?case
  proof (cases "fst p = k")
    case True
    from Cons.prems(1) have "fst p \<notin> fst ` set al" by simp
    with True have "\<forall>q \<in> set al. fst q \<noteq> k" by (metis imageI)
    then have "filter (\<lambda>p. fst p = k) al = []"
      by (simp add: filter_empty_conv)
    with True Cons.prems show ?thesis by (cases p) auto
  next
    case False
    with Cons show ?thesis by (cases p) auto
  qed
qed

lemma foldl_append_keys: "foldl (\<lambda>integrations key. integrations @ [key]) acc ks = acc @ ks"
  by (induction ks arbitrary: acc) simp_all

lemma setupIntegrations_registered:
  assumes "Integrations (options client) = Some xs"
  shows "setupIntegrations client =
           (client\<lparr>integrations := Some (fst (install xs [] []))\<rparr>, snd (install xs [] []))"
  using assms by (simp add: setupIntegrations_def split: prod.split)

lemma sort_distinct_keys:
  assumes "distinct ks"
  shows "sort ks = sorted_list_of_set (set ks)"
  using assms by (simp add: sorted_list_of_set_sort_remdups distinct_remdups_id)

lemma listIntegrations_registered:
  assumes "Integrations (options client) = Some xs"
    and "\<forall>ks. mset (range_order e ks) = mset ks"
  shows "listIntegrations e (fst (setupIntegrations client)) = sorted_list_of_set (Name ` set xs)"
proof -
  let ?keys = "map fst (fst (install xs [] []))"
  have d: "distinct ?keys" by (rule install_distinct) simp
  have s: "set ?keys = Name ` set xs" using install_keys [of xs "[]" "[]"] by simp
  from assms(2) have m: "mset (range_order e ?keys) = mset ?keys" by blast
  from m d have d': "distinct (range_order e ?keys)"
    by (metis mset_eq_imp_distinct_iff)
  from m have s': "set (range_order e ?keys) = set ?keys"
    by (rule mset_eq_setD)
  have "listIntegrations e (fst (setupIntegrations client)) = sort (range_order e ?keys)"
    by (simp add: setupIntegrations_registered [OF assms(1)] listIntegrations_def map_keys_def
          sort_Strings_def foldl_append_keys)
  also have "\<dots> = sorted_list_of_set (set (range_order e ?keys))"
    using d' by (rule sort_distinct_keys)
  finally show ?thesis using s s' by simp
qed

text \<open>
  C7. For integrations registered at construction, the listing is sorted in the
  lexicographic order of strings, has every registered name once, and is the same
  for every order in which the map is traversed and every order of registration of the
  same names.
\<close>

theorem listIntegrations_sorted_independent_of_order:
  assumes "Integrations (options client) = Some xs"
    and "Integrations (options client') = Some ys"
    and "Name ` set xs = Name ` set ys"
    and "\<forall>ks. mset (range_order e ks) = mset ks"
    and "\<forall>ks. mset (range_order e' ks) = mset ks"
  shows "sorted (listIntegrations e (fst (setupIntegrations client)))
       \<and> distinct (listIntegrations e (fst (setupIntegrations client)))
       \<and> set (listIntegrations e (fst (setupIntegrations client))) = Name ` set xs
       \<and> listIntegrations e' (fst (setupIntegrations client'))
           = listIntegrations e (fst (setupIntegrations client))"
proof -
  have 1: "listIntegrations e (fst (setupIntegrations client)) = sorted_list_of_set (Name ` set xs)"
    using assms(1,4) by (rule listIntegrations_registered)
  have 2: "listIntegrations e' (fst (setupIntegrations client')) = sorted_list_of_set (Name ` set ys)"
    using assms(2,5) by (rule listIntegrations_registered)
  show ?thesis unfolding 1 2 using assms(3) by simp
qed

theorem listIntegrations_sorted_independent_of_order_witness:
  "Integrations (options example_client)
     = Some [\<lparr>Name = ''b'', ident = 0\<rparr>, \<lparr>Name = ''a'', ident = 1\<rparr>, \<lparr>Name = ''c'', ident = 2\<rparr>]
   \<and> (\<forall>ks. mset (range_order example_env ks) = mset ks)
   \<and> (\<forall>ks. mset (range_order example_env_forward ks) = mset ks)
   \<and> listIntegrations example_env (fst (setupIntegrations example_client)) = [''a'', ''b'', ''c'']
   \<and> listIntegrations example_env_forward (fst (setupIntegrations example_client_reordered))
       = [''a'', ''b'', ''c'']"
proof -
  let ?xs = "[\<lparr>Name = ''b'', ident = 0\<rparr>, \<lparr>Name = ''a'', ident = 1\<rparr>, \<lparr>Name = ''c'', ident = 2\<rparr>]"
  let ?ys = "[\<lparr>Name = ''c'', ident = 2\<rparr>, \<lparr>Name = ''b'', ident = 0\<rparr>, \<lparr>Name = ''a'', ident = 1\<rparr>]"
  have h1: "Integrations (options example_client) = Some ?xs"
    by (simp add: example_client_def example_options_def)
  have h2: "Integrations (options example_client_reordered) = Some ?ys"
    by (simp add: example_client_reordered_def)
  have h3: "Name ` set ?xs = Name ` set ?ys" by auto
  have h4: "\<forall>ks. mset (range_order example_env ks) = mset ks"
    by (simp add: example_env_def)
  have h5: "\<forall>ks. mset (range_order example_env_forward ks) = mset ks"
    by (simp add: example_env_forward_def)
  have listed: "listIntegrations example_env (fst (setupIntegrations example_client)) = [''a'', ''b'', ''c'']"
    by (simp add: listIntegrations_def setupIntegrations_def example_client_def example_options_def
          example_env_def map_keys_def sort_Strings_def)
  from listIntegrations_sorted_independent_of_order [OF h1 h2 h3 h4 h5] h1 h4 h5 listed show ?thesis by simp
qed

text \<open>
  C8. When two integrations \<open>a\<close> and \<open>b\<close> of one name are registered, \<open>b\<close> being the
  last registered under that name, the registry has exactly one entry under the name,
  and it is \<open>b\<close>; the setup hook is called once for each registration, in registration
  order, so for \<open>a\<close> and for \<open>b\<close>.
\<close>

theorem setupIntegrations_duplicate_name_last_wins:
  assumes "Integrations (options client) = Some (pre @ a # mid @ b # post)"
    and "Name a = Name b"
    and "\<forall>j \<in> set post. Name j \<noteq> Name b"
  shows "\<exists>m. integrations (fst (setupIntegrations client)) = Some m
           \<and> filter (\<lambda>p. fst p = Name b) m = [(Name b, b)]
           \<and> map_of m (Name b) = Some b
           \<and> distinct (map fst m)
           \<and> SetupOnce_calls (snd (setupIntegrations client)) = pre @ a # mid @ b # post"
proof -
  let ?xs = "pre @ a # mid @ b # post"
  let ?m = "fst (install ?xs [] [])"
  have reg: "integrations (fst (setupIntegrations client)) = Some ?m"
    by (simp add: setupIntegrations_registered [OF assms(1)])
  have d: "distinct (map fst ?m)" by (rule install_distinct) simp
  have none_after: "filter (\<lambda>j. Name j = Name b) post = []"
    using assms(3) by (auto simp: filter_empty_conv)
  have f: "filter (\<lambda>j. Name j = Name b) ?xs
          = (filter (\<lambda>j. Name j = Name b) pre @ a # filter (\<lambda>j. Name j = Name b) mid) @ [b]"
    using assms(2) none_after by simp
  have l: "map_of ?m (Name b) = Some b"
    unfolding install_map_of f by (simp only: last_snoc) simp
  have one: "filter (\<lambda>p. fst p = Name b) ?m = [(Name b, b)]"
    using d l by (rule single_entry)
  have hooks: "SetupOnce_calls (snd (setupIntegrations client)) = ?xs"
    by (simp add: setupIntegrations_registered [OF assms(1)] install_hooks)
  from reg one l d hooks show ?thesis by blast
qed


theorem setupIntegrations_duplicate_name_last_wins_witness:
  "Integrations (options example_client_duplicates)
     = Some ([] @ \<lparr>Name = ''dup'', ident = 1\<rparr> # [\<lparr>Name = ''other'', ident = 2\<rparr>]
               @ \<lparr>Name = ''dup'', ident = 3\<rparr> # [])
   \<and> Name \<lparr>Name = ''dup'', ident = 1\<rparr> = Name \<lparr>Name = ''dup'', ident = 3\<rparr>
   \<and> (\<exists>m. integrations (fst (setupIntegrations example_client_duplicates)) = Some m
          \<and> filter (\<lambda>p. fst p = ''dup'') m = [(''dup'', \<lparr>Name = ''dup'', ident = 3\<rparr>)])
   \<and> SetupOnce_calls (snd (setupIntegrations example_client_duplicates))
       = [\<lparr>Name = ''dup'', ident = 1\<rparr>, \<lparr>Name = ''other'', ident = 2\<rparr>, \<lparr>Name = ''dup'', ident = 3\<rparr>]"
proof -
  have h1: "Integrations (options example_client_duplicates)
     = Some ([] @ \<lparr>Name = ''dup'', ident = 1\<rparr> # [\<lparr>Name = ''other'', ident = 2\<rparr>]
               @ \<lparr>Name = ''dup'', ident = 3\<rparr> # [])"
    by (simp add: example_client_duplicates_def)
  have h2: "Name \<lparr>Name = ''dup'', ident = 1\<rparr> = Name \<lparr>Name = ''dup'', ident = 3\<rparr>" by simp
  have h3: "\<forall>j \<in> set []. Name j \<noteq> Name \<lparr>Name = ''dup'', ident = 3\<rparr>" by simp
  from setupIntegrations_duplicate_name_last_wins [OF h1 h2 h3] h1 h2 show ?thesis by auto
qed


subsection \<open>Construction\<close>

lemma setupTransport_fields:
  "Transport (fst (setupTransport s client))
     = Some (case opt_Transport (options client) of None \<Rightarrow> HTTPTransport s | Some t \<Rightarrow> t)"
  "dsn (fst (setupTransport s client)) = dsn client"
  "options (fst (setupTransport s client)) = options client"
  by (simp_all add: setupTransport_def Let_def)

lemma setupIntegrations_fields:
  "Transport (fst (setupIntegrations client)) = Transport client"
  "dsn (fst (setupIntegrations client)) = dsn client"
  "options (fst (setupIntegrations client)) = options client"
  by (simp_all add: setupIntegrations_def split: option.split prod.split)

text \<open>The descriptor that \<^verbatim>\<open>NewClient\<close> passes to the parser, and the two ways it ends.\<close>

lemma NewClient_descriptor:
  "opt_Dsn (if Environment (if Release (if opt_Dsn opts = [] then opts\<lparr>opt_Dsn := x\<rparr> else opts) = []
                            then (if opt_Dsn opts = [] then opts\<lparr>opt_Dsn := x\<rparr> else opts)\<lparr>Release := y\<rparr>
                            else (if opt_Dsn opts = [] then opts\<lparr>opt_Dsn := x\<rparr> else opts)) = []
            then (if Release (if opt_Dsn opts = [] then opts\<lparr>opt_Dsn := x\<rparr> else opts) = []
                  then (if opt_Dsn opts = [] then opts\<lparr>opt_Dsn := x\<rparr> else opts)\<lparr>Release := y\<rparr>
                  else (if opt_Dsn opts = [] then opts\<lparr>opt_Dsn := x\<rparr> else opts))\<lparr>Environment := z\<rparr>
            else (if Release (if opt_Dsn opts = [] then opts\<lparr>opt_Dsn := x\<rparr> else opts) = []
                  then (if opt_Dsn opts = [] then opts\<lparr>opt_Dsn := x\<rparr> else opts)\<lparr>Release := y\<rparr>
                  else (if opt_Dsn opts = [] then opts\<lparr>opt_Dsn := x\<rparr> else opts)))
     = (if opt_Dsn opts = [] then x else opt_Dsn opts)"
  by simp

lemma NewClient_failure:
  assumes "descriptor = (if opt_Dsn opts = [] then Getenv s ''SENTRY_DSN'' else opt_Dsn opts)"
    and "NewDsn s descriptor = (d, Some err)"
  shows "fst (NewClient s opts) = (None, Some err)"
  using assms(2) unfolding assms(1) NewClient_def Let_def NewClient_descriptor
  by (simp split del: if_split)

lemma NewClient_success:
  assumes "descriptor = (if opt_Dsn opts = [] then Getenv s ''SENTRY_DSN'' else opt_Dsn opts)"
    and "NewDsn s descriptor = (d, None)"
  shows "\<exists>c. fst (NewClient s opts) = (Some c, None) \<and> dsn c = d \<and> Transport c \<noteq> None"
    and "d = None \<Longrightarrow>
           debugger_Println ''Sentry client initialized with an empty DSN'' \<in> set (snd (NewClient s opts))"
  using assms(2) unfolding assms(1) NewClient_def Let_def NewClient_descriptor
  by (simp_all add: case_prod_beta setupTransport_fields setupIntegrations_fields
        split del: if_split)

text \<open>
  C5. \<^verbatim>\<open>NewClient\<close> returns an error and no client exactly when the parser reports
  an error for the endpoint descriptor (the configured one, or the value of
  \<^verbatim>\<open>SENTRY_DSN\<close> when none is configured); otherwise it returns a client with a
  transport. For an empty descriptor, which the parser accepts, construction succeeds,
  the client has no parsed descriptor, and the notice is sent to the debug logger.
\<close>

theorem NewClient_fails_exactly_on_parse_failure:
  assumes "descriptor = (if opt_Dsn opts = [] then Getenv s ''SENTRY_DSN'' else opt_Dsn opts)"
  shows "((fst (fst (NewClient s opts)) = None \<and> snd (fst (NewClient s opts)) \<noteq> None)
            \<longleftrightarrow> snd (NewDsn s descriptor) \<noteq> None)
       \<and> (snd (NewDsn s descriptor) \<noteq> None \<longrightarrow>
             fst (NewClient s opts) = (None, snd (NewDsn s descriptor)))
       \<and> (snd (NewDsn s descriptor) = None \<longrightarrow>
             (\<exists>c. fst (NewClient s opts) = (Some c, None)
                   \<and> dsn c = fst (NewDsn s descriptor) \<and> Transport c \<noteq> None))
       \<and> (descriptor = [] \<and> NewDsn_accepts_empty (NewDsn s) \<longrightarrow>
             (\<exists>c. fst (NewClient s opts) = (Some c, None) \<and> dsn c = None \<and> Transport c \<noteq> None)
             \<and> debugger_Println ''Sentry client initialized with an empty DSN''
                 \<in> set (snd (NewClient s opts)))"
proof (cases "NewDsn s descriptor")
  case (Pair d err)
  show ?thesis
  proof (cases err)
    case None
    with Pair have p: "NewDsn s descriptor = (d, None)" by simp
    from NewClient_success(1) [OF assms p]
    obtain c where c: "fst (NewClient s opts) = (Some c, None)" "dsn c = d" "Transport c \<noteq> None"
      by blast
    have notice: "debugger_Println ''Sentry client initialized with an empty DSN''
                    \<in> set (snd (NewClient s opts))"
      if "descriptor = []" "NewDsn_accepts_empty (NewDsn s)"
    proof -
      from that p have "d = None" by (simp add: NewDsn_accepts_empty_def)
      then show ?thesis by (rule NewClient_success(2) [OF assms p])
    qed
    have empty: "dsn c = None" if "descriptor = []" "NewDsn_accepts_empty (NewDsn s)"
      using that p c(2) by (simp add: NewDsn_accepts_empty_def)
    from c p notice empty show ?thesis by auto
  next
    case (Some msg)
    with Pair have p: "NewDsn s descriptor = (d, Some msg)" by simp
    from NewClient_failure [OF assms p] p show ?thesis
      by (auto simp: NewDsn_accepts_empty_def)
  qed
qed

theorem NewClient_fails_exactly_on_parse_failure_witness:
  "NewDsn_accepts_empty (NewDsn example_sys)
   \<and> snd (NewDsn example_sys ''bad'') \<noteq> None
   \<and> fst (NewClient example_sys example_options_bad_dsn) = (None, Some ''invalid dsn'')
   \<and> (\<exists>c. fst (NewClient example_sys example_options) = (Some c, None)
           \<and> dsn c = None \<and> Transport c \<noteq> None)
   \<and> debugger_Println ''Sentry client initialized with an empty DSN''
        \<in> set (snd (NewClient example_sys example_options))"
proof -
  have d1: "[] = (if opt_Dsn example_options = [] then Getenv example_sys ''SENTRY_DSN''
                  else opt_Dsn example_options)"
    by (simp add: example_options_def example_sys_def)
  have d2: "''bad'' = (if opt_Dsn example_options_bad_dsn = [] then Getenv example_sys ''SENTRY_DSN''
                       else opt_Dsn example_options_bad_dsn)"
    by (simp add: example_options_bad_dsn_def)
  have a: "NewDsn_accepts_empty (NewDsn example_sys)"
    by (simp add: NewDsn_accepts_empty_def example_sys_def example_NewDsn_def)
  have b: "snd (NewDsn example_sys ''bad'') = Some ''invalid dsn''"
    by (simp add: example_sys_def example_NewDsn_def)
  from NewClient_fails_exactly_on_parse_failure [OF d1] a NewClient_fails_exactly_on_parse_failure [OF d2] b show ?thesis by simp
qed


end
